theory Spec2Isabelle
  imports Main "HOL-Library.Sublist"
begin

section \<open>JupyterLab workspace import and export (jupyterlab/labapp.py)\<close>

text \<open>
  The development embeds \<^verbatim>\<open>LabWorkspaceExportApp.start\<close>,
  \<^verbatim>\<open>LabWorkspaceImportApp.start\<close> and \<^verbatim>\<open>LabWorkspaceImportApp._validate\<close>.
  Functions that the module imports from other packages (\<^verbatim>\<open>json.load\<close>,
  \<^verbatim>\<open>json.dumps\<close>, \<^verbatim>\<open>slugify\<close>, \<^verbatim>\<open>url_path_join\<close>,
  \<^verbatim>\<open>os.path.abspath\<close>), the constant \<^verbatim>\<open>WORKSPACE_EXTENSION\<close> and the encoding of
  standard output are parameters, collected in the record \<open>extern\<close>; the values read from
  \<^verbatim>\<open>load_config(app)\<close> are the record \<open>config\<close>.
\<close>

subsection \<open>Python values produced by \<^verbatim>\<open>json.load\<close>\<close>

text \<open>
  \<^verbatim>\<open>json.load\<close> returns \<^verbatim>\<open>None\<close>, a bool, an int, a float, a str, a list or a
  dict with str keys. A dict is an association list (looked up from the left). The program
  never computes with a float, so a float is kept as its \<^verbatim>\<open>repr\<close>.
\<close>

datatype json =
    JNull
  | JBool bool
  | JInt int
  | JFloat string
  | JStr string
  | JArr "json list"
  | JObj "(string \<times> json) list"

text \<open>
  Exceptions. \<open>Exception msg\<close> is \<^verbatim>\<open>raise Exception(msg)\<close> of \<^verbatim>\<open>_validate\<close>; the
  others are raised by the interpreter, the \<^verbatim>\<open>json\<close> module or the operating system.
\<close>

datatype exn =
    Exception string
  | JSONDecodeError
  | UnicodeDecodeError
  | UnicodeEncodeError
  | TypeError
  | KeyError
  | AttributeError
  | FileNotFoundError
  | FileExistsError
  | IsADirectoryError
  | NotADirectoryError

text \<open>
  \<^verbatim>\<open>key in x\<close> for a str \<open>key\<close>: membership among the keys of a dict, among the
  elements of a list, substring test on a str, \<^verbatim>\<open>TypeError\<close> on anything else.
\<close>

fun py_in :: "string \<Rightarrow> json \<Rightarrow> exn + bool" where
  "py_in k (JObj kvs) = Inr (k \<in> set (map fst kvs))"
| "py_in k (JArr xs) = Inr (JStr k \<in> set xs)"
| "py_in k (JStr s) = Inr (sublist k s)"
| "py_in k JNull = Inl TypeError"
| "py_in k (JBool b) = Inl TypeError"
| "py_in k (JInt i) = Inl TypeError"
| "py_in k (JFloat r) = Inl TypeError"

text \<open>
  \<^verbatim>\<open>x[key]\<close> for a str \<open>key\<close>: the value of a dict (\<^verbatim>\<open>KeyError\<close> when absent),
  \<^verbatim>\<open>TypeError\<close> on a list, a str and everything else.
\<close>

fun py_getitem :: "json \<Rightarrow> string \<Rightarrow> exn + json" where
  "py_getitem (JObj kvs) k = (case map_of kvs k of None \<Rightarrow> Inl KeyError | Some v \<Rightarrow> Inr v)"
| "py_getitem (JArr xs) k = Inl TypeError"
| "py_getitem (JStr s) k = Inl TypeError"
| "py_getitem JNull k = Inl TypeError"
| "py_getitem (JBool b) k = Inl TypeError"
| "py_getitem (JInt i) k = Inl TypeError"
| "py_getitem (JFloat r) k = Inl TypeError"

subsection \<open>The validator\<close>

definition data_missing :: string where
  "data_missing = ''The `data` field is missing.''"

definition metadata_missing :: string where
  "metadata_missing = ''The `metadata` field is missing.''"

definition id_missing :: string where
  "id_missing = ''The `id` field is missing in `metadata`.''"

definition id_mismatch :: "string \<Rightarrow> string" where
  "id_mismatch ident = ident @ '' does not match page_url or start with workspaces_url.''"

text \<open>
  Lines 209 to 212: \<^verbatim>\<open>if id != page_url and not id.startswith(workspaces_url): raise ...\<close>.
  \<open>page_url\<close> is a str, so a value that is not a str differs from it, and the call of
  \<^verbatim>\<open>startswith\<close> then raises \<^verbatim>\<open>AttributeError\<close>. The result is the exception
  raised, if any.
\<close>

fun check_id :: "json \<Rightarrow> string \<Rightarrow> string \<Rightarrow> exn option" where
  "check_id (JStr s) page_url workspaces_url =
     (if s \<noteq> page_url \<and> \<not> prefix workspaces_url s
      then Some (Exception (id_mismatch s)) else None)"
| "check_id JNull page_url workspaces_url = Some AttributeError"
| "check_id (JBool b) page_url workspaces_url = Some AttributeError"
| "check_id (JInt i) page_url workspaces_url = Some AttributeError"
| "check_id (JFloat r) page_url workspaces_url = Some AttributeError"
| "check_id (JArr xs) page_url workspaces_url = Some AttributeError"
| "check_id (JObj kvs) page_url workspaces_url = Some AttributeError"

text \<open>
  Lines 200 to 214 of \<^verbatim>\<open>_validate\<close>, on the value \<^verbatim>\<open>json.load\<close> returned. Line
  209 evaluates \<^verbatim>\<open>workspace['metadata']\<close> a second time, with the result of line 206.
\<close>

definition validate_doc :: "json \<Rightarrow> string \<Rightarrow> string \<Rightarrow> exn + json" where
  "validate_doc workspace page_url workspaces_url =
    (case py_in ''data'' workspace of
       Inl e \<Rightarrow> Inl e
     | Inr has_data \<Rightarrow>
        if \<not> has_data then Inl (Exception data_missing)
        else (case py_in ''metadata'' workspace of
           Inl e \<Rightarrow> Inl e
         | Inr has_metadata \<Rightarrow>
            if \<not> has_metadata then Inl (Exception metadata_missing)
            else (case py_getitem workspace ''metadata'' of
               Inl e \<Rightarrow> Inl e
             | Inr metadata \<Rightarrow>
                (case py_in ''id'' metadata of
                   Inl e \<Rightarrow> Inl e
                 | Inr has_id \<Rightarrow>
                    if \<not> has_id then Inl (Exception id_missing)
                    else (case py_getitem metadata ''id'' of
                       Inl e \<Rightarrow> Inl e
                     | Inr ident \<Rightarrow>
                        (case check_id ident page_url workspaces_url of
                           Some e \<Rightarrow> Inl e
                         | None \<Rightarrow> Inr workspace))))))"

text \<open>
  An open text file is modelled by what \<^verbatim>\<open>fid.read()\<close> does on it: it returns the
  text, or raises \<^verbatim>\<open>UnicodeDecodeError\<close> when the bytes are not text in the locale's
  encoding.
\<close>

datatype contents = Text string | Undecodable

fun fid_read :: "contents \<Rightarrow> exn + string" where
  "fid_read (Text s) = Inr s"
| "fid_read Undecodable = Inl UnicodeDecodeError"

record extern =
  json_loads :: "string \<Rightarrow> json option"
  dumps :: "json \<Rightarrow> String.literal"
  stdout_encodes :: "char \<Rightarrow> bool"
  slugify :: "string \<Rightarrow> string \<Rightarrow> string"
  ujoin :: "string \<Rightarrow> string \<Rightarrow> string"
  abspath :: "string \<Rightarrow> string list"
  WORKSPACE_EXTENSION :: string

text \<open>
  \<^verbatim>\<open>json.load(fid)\<close> is \<^verbatim>\<open>json.loads(fid.read())\<close>; \<open>json_loads E s = None\<close> when
  \<^verbatim>\<open>json.loads\<close> raises.
\<close>

text \<open>
  \<^verbatim>\<open>json.dumps(v)\<close> with its default \<^verbatim>\<open>ensure_ascii=True\<close> returns ASCII text, which
  is what the type \<open>String.literal\<close> holds; \<open>json_dumps E v\<close> is that text as a string.
\<close>

definition json_dumps :: "extern \<Rightarrow> json \<Rightarrow> string" where
  "json_dumps E v = String.explode (dumps E v)"

text \<open>
  \<^verbatim>\<open>print(s)\<close> encodes the text for standard output. An ASCII character is encoded by
  every encoding; a character above 127 only when the encoding of standard output has it
  (\<open>stdout_encodes\<close>), and \<^verbatim>\<open>print\<close> raises \<^verbatim>\<open>UnicodeEncodeError\<close> otherwise. The
  result is the text printed.
\<close>

definition stdout_prints :: "extern \<Rightarrow> string \<Rightarrow> bool" where
  "stdout_prints E s = list_all (\<lambda>c. \<not> digit7 c \<or> stdout_encodes E c) s"

definition py_print :: "extern \<Rightarrow> string \<Rightarrow> exn + string" where
  "py_print E s = (if stdout_prints E s then Inr s else Inl UnicodeEncodeError)"

definition json_load :: "extern \<Rightarrow> contents \<Rightarrow> exn + json" where
  "json_load E fid =
    (case fid_read fid of
       Inl e \<Rightarrow> Inl e
     | Inr s \<Rightarrow> (case json_loads E s of None \<Rightarrow> Inl JSONDecodeError | Some v \<Rightarrow> Inr v))"

definition validate :: "extern \<Rightarrow> contents \<Rightarrow> string \<Rightarrow> string \<Rightarrow> exn + json" where
  "validate E data page_url workspaces_url =
    (case json_load E data of
       Inl e \<Rightarrow> Inl e
     | Inr workspace \<Rightarrow> validate_doc workspace page_url workspaces_url)"

subsection \<open>The file system\<close>

text \<open>
  The calls \<^verbatim>\<open>os.path.exists\<close>, \<^verbatim>\<open>os.makedirs\<close> and \<^verbatim>\<open>open\<close> act on a file
  system that maps an absolute path, the list of its components, to a directory or to a
  regular file with its contents. The root is the path \<open>[]\<close>. Permissions, links and
  device errors are not modelled: a \<open>File\<close> is a regular file that \<^verbatim>\<open>open\<close> opens,
  a \<open>Dir\<close> a directory in which entries can be made, and a call fails only for the
  shape of the tree.
\<close>

type_synonym path = "string list"

datatype node = Dir | File contents

type_synonym filesystem = "path \<Rightarrow> node option"

definition path_exists :: "filesystem \<Rightarrow> path \<Rightarrow> bool" where
  "path_exists fs p = (fs p \<noteq> None)"

text \<open>\<^verbatim>\<open>open(p)\<close> for reading.\<close>

definition open_read :: "filesystem \<Rightarrow> path \<Rightarrow> exn + contents" where
  "open_read fs p =
    (case fs p of
       None \<Rightarrow> Inl FileNotFoundError
     | Some Dir \<Rightarrow> Inl IsADirectoryError
     | Some (File c) \<Rightarrow> Inr c)"

text \<open>
  \<^verbatim>\<open>open(p, 'w')\<close> truncates a regular file, creates it in an existing directory, and
  raises otherwise; \<^verbatim>\<open>fid.write(s)\<close> then stores the text.
\<close>

definition open_write :: "filesystem \<Rightarrow> path \<Rightarrow> exn + filesystem" where
  "open_write fs p =
    (case fs p of
       Some Dir \<Rightarrow> Inl IsADirectoryError
     | Some (File c) \<Rightarrow> Inr (fs(p \<mapsto> File (Text [])))
     | None \<Rightarrow>
        if p = [] then Inl IsADirectoryError
        else (case fs (butlast p) of
           None \<Rightarrow> Inl FileNotFoundError
         | Some (File c) \<Rightarrow> Inl NotADirectoryError
         | Some Dir \<Rightarrow> Inr (fs(p \<mapsto> File (Text [])))))"

definition fid_write :: "filesystem \<Rightarrow> path \<Rightarrow> string \<Rightarrow> filesystem" where
  "fid_write fs p s = fs(p \<mapsto> File (Text s))"

text \<open>\<^verbatim>\<open>os.mkdir(p)\<close>: the exception raised, if any, and the file system afterwards.\<close>

definition mkdir :: "filesystem \<Rightarrow> path \<Rightarrow> exn option \<times> filesystem" where
  "mkdir fs p =
    (if p = [] \<or> fs p \<noteq> None then (Some FileExistsError, fs)
     else (case fs (butlast p) of
        None \<Rightarrow> (Some FileNotFoundError, fs)
      | Some (File c) \<Rightarrow> (Some NotADirectoryError, fs)
      | Some Dir \<Rightarrow> (None, fs(p \<mapsto> Dir))))"

text \<open>
  \<^verbatim>\<open>os.makedirs(name)\<close>: when the parent (\<^verbatim>\<open>head\<close>) does not exist it is made first,
  a \<^verbatim>\<open>FileExistsError\<close> from that call is passed over, any other exception is raised
  again; then \<^verbatim>\<open>mkdir(name)\<close>.
\<close>

function makedirs :: "filesystem \<Rightarrow> path \<Rightarrow> exn option \<times> filesystem" where
  "makedirs fs name =
    (if name \<noteq> [] \<and> \<not> path_exists fs (butlast name) then
       (case makedirs fs (butlast name) of
          (None, fs') \<Rightarrow> mkdir fs' name
        | (Some e, fs') \<Rightarrow> if e = FileExistsError then mkdir fs' name else (Some e, fs'))
     else mkdir fs name)"
  by pat_completeness auto
termination
  by (relation "measure (\<lambda>(fs, name). length name)") auto

declare makedirs.simps [simp del]

subsection \<open>The commands\<close>

record config =
  base_url :: string
  workspaces_dir :: path
  page_url :: string
  workspaces_url :: string

text \<open>
  What a run of \<^verbatim>\<open>start\<close> does: it prints a workspace and returns, prints
  \<^verbatim>\<open>Saved workspace: <path>\<close> and returns, prints a message and calls
  \<^verbatim>\<open>sys.exit(1)\<close>, or lets an exception escape.
\<close>

datatype message =
    TooManyArguments
  | OneArgumentRequired
  | DoesNotExist string
  | NotValid string exn
  | DirectoryNotCreated exn

datatype outcome =
    Printed string
  | Saved path
  | Exit1 message
  | Uncaught exn

fun exit_status :: "outcome \<Rightarrow> nat" where
  "exit_status (Printed s) = 0"
| "exit_status (Saved p) = 0"
| "exit_status (Exit1 m) = 1"
| "exit_status (Uncaught e) = 1"

text \<open>Lines 133 and 134: the identifier that export resolves its arguments to.\<close>

definition export_raw :: "extern \<Rightarrow> config \<Rightarrow> string list \<Rightarrow> string" where
  "export_raw E cfg extra_args =
    (if extra_args = [] then page_url cfg else ujoin E (workspaces_url cfg) (hd extra_args))"

text \<open>
  Lines 135 and 136 (188 and 189 in import): the file of an identifier. The slug is one
  path component, since \<^verbatim>\<open>slugify\<close> returns no separator.
\<close>

definition workspace_path :: "extern \<Rightarrow> config \<Rightarrow> string \<Rightarrow> path" where
  "workspace_path E cfg raw =
    workspaces_dir cfg @ [slugify E raw (base_url cfg) @ WORKSPACE_EXTENSION E]"

text \<open>\<^verbatim>\<open>dict(data=dict(), metadata=dict(id=raw))\<close>\<close>

definition empty_workspace :: "string \<Rightarrow> json" where
  "empty_workspace raw = JObj [(''data'', JObj []), (''metadata'', JObj [(''id'', JStr raw)])]"

text \<open>Lines 143 and 145: \<^verbatim>\<open>print(json.dumps(dict(data=dict(), metadata=dict(id=raw))))\<close>.\<close>

definition print_empty_workspace :: "extern \<Rightarrow> string \<Rightarrow> outcome" where
  "print_empty_workspace E raw =
    (case py_print E (json_dumps E (empty_workspace raw)) of
       Inl e \<Rightarrow> Uncaught e
     | Inr out \<Rightarrow> Printed out)"

text \<open>
  \<^verbatim>\<open>LabWorkspaceExportApp.start\<close>; the file system is only read. The \<^verbatim>\<open>try\<close> of
  lines 140 to 143 covers \<^verbatim>\<open>print(fid.read())\<close>: an exception of the read or of the
  print leads to the handler, which prints the empty workspace.
\<close>

definition export_start :: "extern \<Rightarrow> config \<Rightarrow> filesystem \<Rightarrow> string list \<Rightarrow> outcome" where
  "export_start E cfg fs extra_args =
    (if length extra_args > 1 then Exit1 TooManyArguments
     else
       let raw = export_raw E cfg extra_args;
           wpath = workspace_path E cfg raw
       in if path_exists fs wpath then
            (case open_read fs wpath of
               Inl e \<Rightarrow> Uncaught e
             | Inr fid \<Rightarrow>
                (case (case fid_read fid of Inl e \<Rightarrow> Inl e | Inr s \<Rightarrow> py_print E s) of
                   Inr out \<Rightarrow> Printed out
                 | Inl e \<Rightarrow> print_empty_workspace E raw))
          else print_empty_workspace E raw)"

text \<open>Lines 181 to 186 of import.\<close>

definition ensure_directory :: "filesystem \<Rightarrow> path \<Rightarrow> exn option \<times> filesystem" where
  "ensure_directory fs directory =
    (if \<not> path_exists fs directory then makedirs fs directory else (None, fs))"

text \<open>
  Lines 188 to 195 of import. \<^verbatim>\<open>slugify\<close> calls \<^verbatim>\<open>raw.startswith\<close> first, which
  raises \<^verbatim>\<open>AttributeError\<close> on a value that is not a str.
\<close>

definition write_workspace ::
  "extern \<Rightarrow> config \<Rightarrow> filesystem \<Rightarrow> json \<Rightarrow> outcome \<times> filesystem" where
  "write_workspace E cfg fs workspace =
    (case py_getitem workspace ''metadata'' of
       Inl e \<Rightarrow> (Uncaught e, fs)
     | Inr metadata \<Rightarrow>
        (case py_getitem metadata ''id'' of
           Inl e \<Rightarrow> (Uncaught e, fs)
         | Inr ident \<Rightarrow>
            (case ident of
               JStr raw \<Rightarrow>
                 (let wpath = workspace_path E cfg raw
                  in case open_write fs wpath of
                       Inl e \<Rightarrow> (Uncaught e, fs)
                     | Inr fs' \<Rightarrow> (Saved wpath, fid_write fs' wpath (json_dumps E workspace)))
             | _ \<Rightarrow> (Uncaught AttributeError, fs))))"

text \<open>
  \<^verbatim>\<open>LabWorkspaceImportApp.start\<close>: the outcome and the file system it leaves. The
  prints of import stand outside every \<^verbatim>\<open>try\<close>, no handler depends on them, and they
  are taken to succeed.
\<close>

definition import_start ::
  "extern \<Rightarrow> config \<Rightarrow> filesystem \<Rightarrow> string list \<Rightarrow> outcome \<times> filesystem" where
  "import_start E cfg fs extra_args =
    (if length extra_args \<noteq> 1 then (Exit1 OneArgumentRequired, fs)
     else
       let file_name = hd extra_args;
           file_path = abspath E file_name
       in if \<not> path_exists fs file_path then (Exit1 (DoesNotExist file_name), fs)
          else (case open_read fs file_path of
             Inl e \<Rightarrow> (Uncaught e, fs)
           | Inr fid \<Rightarrow>
              (case validate E fid (page_url cfg) (workspaces_url cfg) of
                 Inl e \<Rightarrow> (Exit1 (NotValid file_name e), fs)
               | Inr workspace \<Rightarrow>
                  (case ensure_directory fs (workspaces_dir cfg) of
                     (Some e, fs') \<Rightarrow> (Exit1 (DirectoryNotCreated e), fs')
                   | (None, fs') \<Rightarrow> write_workspace E cfg fs' workspace))))"

subsection \<open>Notions of the specification\<close>

text \<open>The value of \<^verbatim>\<open>workspace['metadata']['id']\<close>, when both subscripts succeed.\<close>

definition metadata_id :: "json \<Rightarrow> json option" where
  "metadata_id workspace =
    (case py_getitem workspace ''metadata'' of
       Inl e \<Rightarrow> None
     | Inr metadata \<Rightarrow> (case py_getitem metadata ''id'' of Inl e \<Rightarrow> None | Inr i \<Rightarrow> Some i))"

text \<open>
  The specification's reading of rule 5, "starts with \<open>workspacesUrl\<close> as a path prefix":
  \<open>p\<close> is a prefix of \<open>s\<close> that ends at a path boundary, so what follows it in \<open>s\<close> is
  nothing or begins a new segment.
\<close>

definition path_prefix :: "string \<Rightarrow> string \<Rightarrow> bool" where
  "path_prefix p s =
    (prefix p s \<and>
     (case drop (length p) s of
        [] \<Rightarrow> True
      | c # cs \<Rightarrow> c = CHR ''/'' \<or> (p \<noteq> [] \<and> last p = CHR ''/'')))"

text \<open>
  The five rules of the specification, each as the source checks it when it is evaluated
  alone on the loaded value: the result is the exception the check raises, if any.
\<close>

definition rule_json :: "extern \<Rightarrow> contents \<Rightarrow> exn option" where
  "rule_json E data = (case json_load E data of Inl e \<Rightarrow> Some e | Inr w \<Rightarrow> None)"

definition rule_data :: "json \<Rightarrow> exn option" where
  "rule_data w =
    (case py_in ''data'' w of
       Inl e \<Rightarrow> Some e
     | Inr b \<Rightarrow> if b then None else Some (Exception data_missing))"

definition rule_metadata :: "json \<Rightarrow> exn option" where
  "rule_metadata w =
    (case py_in ''metadata'' w of
       Inl e \<Rightarrow> Some e
     | Inr b \<Rightarrow> if b then None else Some (Exception metadata_missing))"

definition rule_metadata_id :: "json \<Rightarrow> exn option" where
  "rule_metadata_id w =
    (case py_getitem w ''metadata'' of
       Inl e \<Rightarrow> Some e
     | Inr m \<Rightarrow>
        (case py_in ''id'' m of
           Inl e \<Rightarrow> Some e
         | Inr b \<Rightarrow> if b then None else Some (Exception id_missing)))"

definition rule_identity :: "string \<Rightarrow> string \<Rightarrow> json \<Rightarrow> exn option" where
  "rule_identity pu wu w =
    (case py_getitem w ''metadata'' of
       Inl e \<Rightarrow> Some e
     | Inr m \<Rightarrow>
        (case py_getitem m ''id'' of
           Inl e \<Rightarrow> Some e
         | Inr i \<Rightarrow> check_id i pu wu))"

text \<open>A rule on loaded values, as a rule on the file: it needs the file to load.\<close>

definition on_document :: "extern \<Rightarrow> (json \<Rightarrow> exn option) \<Rightarrow> contents \<Rightarrow> exn option" where
  "on_document E r data = (case json_load E data of Inl e \<Rightarrow> Some e | Inr w \<Rightarrow> r w)"

definition validation_rules :: "extern \<Rightarrow> string \<Rightarrow> string \<Rightarrow> (contents \<Rightarrow> exn option) list" where
  "validation_rules E pu wu =
    [rule_json E,
     on_document E rule_data,
     on_document E rule_metadata,
     on_document E rule_metadata_id,
     on_document E (rule_identity pu wu)]"

text \<open>Rules checked in order, the first failure wins.\<close>

fun first_failure :: "('a \<Rightarrow> exn option) list \<Rightarrow> 'a \<Rightarrow> exn option" where
  "first_failure [] x = None"
| "first_failure (r # rs) x = (case r x of Some e \<Rightarrow> Some e | None \<Rightarrow> first_failure rs x)"

text \<open>
  A file system is a tree when the root is a directory and every other path that exists
  lies in a directory.
\<close>

definition tree_shaped :: "filesystem \<Rightarrow> bool" where
  "tree_shaped fs =
    (fs [] = Some Dir \<and> (\<forall>p. p \<noteq> [] \<longrightarrow> fs p \<noteq> None \<longrightarrow> fs (butlast p) = Some Dir))"

subsection \<open>An environment for the examples\<close>

text \<open>
  \<^verbatim>\<open>notebook.utils.url_path_join\<close> on two pieces: the pieces are stripped of slashes,
  the non-empty ones joined by a slash, and the leading slash of the first piece and the
  trailing slash of the last are kept.
\<close>

definition strip_slashes :: "string \<Rightarrow> string" where
  "strip_slashes s =
    rev (dropWhile (\<lambda>c. c = CHR ''/'') (rev (dropWhile (\<lambda>c. c = CHR ''/'') s)))"

definition url_path_join :: "string \<Rightarrow> string \<Rightarrow> string" where
  "url_path_join a b =
    (let initial = prefix ''/'' a;
         final = (b \<noteq> [] \<and> last b = CHR ''/'');
         stripped = filter (\<lambda>s. s \<noteq> []) [strip_slashes a, strip_slashes b];
         result = (case stripped of [] \<Rightarrow> [] | [x] \<Rightarrow> x | x # y # zs \<Rightarrow> x @ ''/'' @ y);
         result = (if initial then ''/'' @ result else result);
         result = (if final then result @ ''/'' else result)
     in if result = ''//'' then ''/'' else result)"

text \<open>
  The texts of the examples with the values \<^verbatim>\<open>json.loads\<close> gives for them;
  \<^verbatim>\<open>json.dumps\<close> prints each value as its text. The two functions below are the
  \<^verbatim>\<open>json\<close> module on these texts only, which is all the examples use.
\<close>

definition example_texts :: "(string \<times> json) list" where
  \<open>example_texts =
    [(''{"data": {}, "metadata": {"id": "/lab"}}'',
        JObj [(''data'', JObj []), (''metadata'', JObj [(''id'', JStr ''/lab'')])]),
     (''{"data": {}, "metadata": {"id": "/lab/workspaces/foo"}}'',
        JObj [(''data'', JObj []), (''metadata'', JObj [(''id'', JStr ''/lab/workspaces/foo'')])]),
     (''{"data": {}, "metadata": {"id": "/lab/workspacesfoo"}}'',
        JObj [(''data'', JObj []), (''metadata'', JObj [(''id'', JStr ''/lab/workspacesfoo'')])]),
     (''{"data": 5, "metadata": {"id": "/lab"}, "extra": [true]}'',
        JObj [(''data'', JInt 5), (''metadata'', JObj [(''id'', JStr ''/lab'')]),
              (''extra'', JArr [JBool True])]),
     (''{"data": {}, "metadata": {"id": "/elsewhere"}}'',
        JObj [(''data'', JObj []), (''metadata'', JObj [(''id'', JStr ''/elsewhere'')])]),
     (''{"metadata": 5}'', JObj [(''metadata'', JInt 5)])]\<close>

definition example_loads :: "string \<Rightarrow> json option" where
  "example_loads s = map_of example_texts s"

definition example_dumps :: "json \<Rightarrow> String.literal" where
  "example_dumps v =
    String.implode (case find (\<lambda>tv. snd tv = v) example_texts of Some tv \<Rightarrow> fst tv | None \<Rightarrow> [])"

text \<open>
  A stand-in for \<^verbatim>\<open>jupyterlab_server.slugify\<close>, whose result carries a digest: it keeps
  the letters, digits, hyphens and underscores of the identifier.
\<close>

definition example_slugify :: "string \<Rightarrow> string \<Rightarrow> string" where
  "example_slugify raw base =
    filter (\<lambda>c. c \<in> set ''abcdefghijklmnopqrstuvwxyz0123456789-_'') raw"

text \<open>\<^verbatim>\<open>os.path.abspath\<close> of a plain file name, the working directory being \<^verbatim>\<open>/home\<close>.\<close>

definition example_abspath :: "string \<Rightarrow> path" where
  "example_abspath file_name = [''home'', file_name]"

definition E0 :: extern where
  "E0 = \<lparr>json_loads = example_loads, dumps = example_dumps,
          stdout_encodes = (\<lambda>c. False), slugify = example_slugify,
          ujoin = url_path_join, abspath = example_abspath,
          WORKSPACE_EXTENSION = ''.jupyterlab-workspace''\<rparr>"

definition cfg0 :: config where
  "cfg0 = \<lparr>base_url = ''/'', workspaces_dir = [''home'', ''ws''], page_url = ''/lab'',
            workspaces_url = ''/lab/workspaces''\<rparr>"

text \<open>A home directory with a source file of the given contents and no workspace directory.\<close>

definition fs_home :: "contents \<Rightarrow> filesystem" where
  "fs_home c = [[] \<mapsto> Dir, [''home''] \<mapsto> Dir, [''home'', ''w.json''] \<mapsto> File c]"

text \<open>The same with a workspace directory that holds the file of the identifier \<^verbatim>\<open>/lab\<close>.\<close>

definition fs_store :: "contents \<Rightarrow> contents \<Rightarrow> filesystem" where
  "fs_store c d = (fs_home c)([''home'', ''ws''] \<mapsto> Dir,
     [''home'', ''ws'', ''lab.jupyterlab-workspace''] \<mapsto> File d)"

section \<open>Properties\<close>

subsection \<open>Python values and the validator\<close>

lemma py_getitem_Inr: "py_getitem w k = Inr v \<longleftrightarrow> (\<exists>kvs. w = JObj kvs \<and> map_of kvs k = Some v)"
  by (cases w) (auto split: option.splits)

lemma py_in_JObj: "py_in k (JObj kvs) = Inr (map_of kvs k \<noteq> None)"
  by (simp add: map_of_eq_None_iff)

lemma check_id_None:
  "check_id i pu wu = None \<longleftrightarrow> (\<exists>s. i = JStr s \<and> (s = pu \<or> prefix wu s))"
  by (cases i) auto

lemma validate_doc_Inr:
  "validate_doc w pu wu = Inr w' \<longleftrightarrow>
     w' = w \<and> (\<exists>kvs mkvs s. w = JObj kvs \<and> ''data'' \<in> set (map fst kvs) \<and>
        map_of kvs ''metadata'' = Some (JObj mkvs) \<and> map_of mkvs ''id'' = Some (JStr s) \<and>
        (s = pu \<or> prefix wu s))"
proof
  assume acc: "validate_doc w pu wu = Inr w'"
  then obtain m where m: "py_getitem w ''metadata'' = Inr m"
    by (auto simp: validate_doc_def split: sum.splits if_splits)
  then obtain kvs where w: "w = JObj kvs" and km: "map_of kvs ''metadata'' = Some m"
    by (auto simp: py_getitem_Inr)
  from acc m obtain i where i: "py_getitem m ''id'' = Inr i"
    by (auto simp: validate_doc_def split: sum.splits if_splits)
  then obtain mkvs where mm: "m = JObj mkvs" and mi: "map_of mkvs ''id'' = Some i"
    by (auto simp: py_getitem_Inr)
  from acc m i have "check_id i pu wu = None" and "w' = w" and "py_in ''data'' w = Inr True"
    by (auto simp: validate_doc_def split: sum.splits if_splits option.splits)
  then show "w' = w \<and> (\<exists>kvs mkvs s. w = JObj kvs \<and> ''data'' \<in> set (map fst kvs) \<and>
        map_of kvs ''metadata'' = Some (JObj mkvs) \<and> map_of mkvs ''id'' = Some (JStr s) \<and>
        (s = pu \<or> prefix wu s))"
    using w km mm mi by (auto simp: check_id_None)
next
  assume "w' = w \<and> (\<exists>kvs mkvs s. w = JObj kvs \<and> ''data'' \<in> set (map fst kvs) \<and>
        map_of kvs ''metadata'' = Some (JObj mkvs) \<and> map_of mkvs ''id'' = Some (JStr s) \<and>
        (s = pu \<or> prefix wu s))"
  then obtain kvs mkvs s where "w' = w" "w = JObj kvs" "''data'' \<in> set (map fst kvs)"
     "map_of kvs ''metadata'' = Some (JObj mkvs)" "map_of mkvs ''id'' = Some (JStr s)"
        "s = pu \<or> prefix wu s" by blast
  moreover from this have "map_of kvs ''data'' \<noteq> None"
    by (simp add: map_of_eq_None_iff)
  ultimately show "validate_doc w pu wu = Inr w'"
    by (auto simp add: validate_doc_def py_in_JObj simp del: py_in.simps(1))
qed

subsection \<open>Directories\<close>

lemma mkdir_None:
  "mkdir fs p = (None, fs') \<longleftrightarrow> p \<noteq> [] \<and> fs p = None \<and> fs (butlast p) = Some Dir \<and> fs' = fs(p \<mapsto> Dir)"
  by (auto simp: mkdir_def split: option.splits node.splits)

lemma mkdir_Some: "mkdir fs p = (Some e, fs') \<Longrightarrow> fs' = fs"
  by (auto simp: mkdir_def split: option.splits node.splits if_splits)

lemma tree_shaped_prefix:
  "tree_shaped fs \<Longrightarrow> fs (q @ r) \<noteq> None \<Longrightarrow> r \<noteq> [] \<Longrightarrow> fs q = Some Dir"
proof (induction r rule: rev_induct)
  case Nil
  then show ?case by simp
next
  case (snoc x xs)
  have "fs (butlast (q @ xs @ [x])) = Some Dir"
    using snoc.prems(1,2) unfolding tree_shaped_def by (metis append_is_Nil_conv not_Cons_self2)
  then have "fs (q @ xs) = Some Dir" by (simp add: butlast_append)
  then show ?case using snoc by (cases "xs = []") auto
qed

lemma makedirs_base:
  "name = [] \<or> path_exists fs (butlast name) \<Longrightarrow> makedirs fs name = mkdir fs name"
  by (subst makedirs.simps) auto

lemma makedirs_rec:
  "name \<noteq> [] \<Longrightarrow> \<not> path_exists fs (butlast name) \<Longrightarrow>
   makedirs fs name =
     (case makedirs fs (butlast name) of
        (None, fs') \<Rightarrow> mkdir fs' name
      | (Some e, fs') \<Rightarrow> if e = FileExistsError then mkdir fs' name else (Some e, fs'))"
  by (subst makedirs.simps) simp

lemma not_prefix_butlast: "name \<noteq> [] \<Longrightarrow> \<not> prefix name (butlast name)"
proof
  assume ne: "name \<noteq> []" and pre: "prefix name (butlast name)"
  from pre have a: "length name \<le> length (butlast name)" by (rule prefix_length_le)
  have b: "length (butlast name) = length name - 1" by (rule length_butlast)
  from ne have c: "0 < length name" by simp
  from a b c show False by arith
qed

lemma makedirs_effect:
  "\<not> path_exists fs name \<Longrightarrow> makedirs fs name = (r, fs') \<Longrightarrow>
     (case r of
        Some e \<Rightarrow> fs' = fs
      | None \<Rightarrow> fs' name = Some Dir \<and>
          (\<forall>q. fs' q = fs q \<or> (fs q = None \<and> fs' q = Some Dir \<and> prefix q name)))"
proof (induction fs name arbitrary: r fs' rule: makedirs.induct)
  case (1 fs name)
  show ?case
  proof (cases "name \<noteq> [] \<and> \<not> path_exists fs (butlast name)")
    case False
    then have "mkdir fs name = (r, fs')" using "1.prems"(2) by (simp add: makedirs_base)
    then show ?thesis
      by (cases r) (auto simp: mkdir_None dest: mkdir_Some)
  next
    case True
    obtain r1 fs1 where rec: "makedirs fs (butlast name) = (r1, fs1)" by (cases "makedirs fs (butlast name)")
    note IH = "1.IH"[OF True _ rec]
    from True have ne: "\<not> path_exists fs (butlast name)" by simp
    show ?thesis
    proof (cases r1)
      case None
      with IH ne have f1: "fs1 (butlast name) = Some Dir"
        and ch: "\<forall>q. fs1 q = fs q \<or> (fs q = None \<and> fs1 q = Some Dir \<and> prefix q (butlast name))"
        by auto
      from None rec True "1.prems"(2) have mk: "mkdir fs1 name = (r, fs')"
        by (simp add: makedirs_rec)
      have "\<not> prefix name (butlast name)" using True
        by (simp add: not_prefix_butlast)
      with ch "1.prems"(1) have "fs1 name = None" by (metis path_exists_def)
      with f1 True mk have r: "r = None" and fs': "fs' = fs1(name \<mapsto> Dir)"
        by (auto simp: mkdir_def)
      have "prefix q name" if "prefix q (butlast name)" for q
        using that by (metis prefix_order.order_trans prefixI append_butlast_last_id True)
      with ch show ?thesis unfolding r fs' using "1.prems"(1)
        by (auto simp: path_exists_def)
    next
      case (Some e)
      with IH ne have eq: "fs1 = fs" by simp
      show ?thesis
      proof (cases "e = FileExistsError")
        case True
        with Some rec \<open>name \<noteq> [] \<and> \<not> path_exists fs (butlast name)\<close> "1.prems"(2) eq
        have "mkdir fs name = (r, fs')" by (simp add: makedirs_rec)
        moreover have "fs (butlast name) = None" using ne by (simp add: path_exists_def)
        ultimately show ?thesis by (auto simp: mkdir_def split: if_splits)
      next
        case False
        with Some rec \<open>name \<noteq> [] \<and> \<not> path_exists fs (butlast name)\<close> "1.prems"(2) eq
        show ?thesis by (auto simp add: makedirs_rec)
      qed
    qed
  qed
qed

lemma makedirs_tree:
  "tree_shaped fs \<Longrightarrow> fs name = None \<Longrightarrow>
   makedirs fs name =
     (if \<exists>q c. prefix q name \<and> fs q = Some (File c) then (Some NotADirectoryError, fs)
      else (None, \<lambda>q. if prefix q name \<and> fs q = None then Some Dir else fs q))"
proof (induction fs name rule: makedirs.induct)
  case (1 fs name)
  from "1.prems" have ne: "name \<noteq> []" by (auto simp: tree_shaped_def)
  have pre: "prefix q name \<longleftrightarrow> q = name \<or> prefix q (butlast name)" for q
    using ne prefix_snoc[of q "butlast name" "last name"] by auto
  show ?case
  proof (cases "path_exists fs (butlast name)")
    case True
    then have mk: "makedirs fs name = mkdir fs name" by (simp add: makedirs_base)
    from True obtain n where n: "fs (butlast name) = Some n" by (auto simp: path_exists_def)
    have anc: "fs q = Some Dir" if "prefix q (butlast name)" "q \<noteq> butlast name" for q
    proof -
      from that obtain r where "butlast name = q @ r" "r \<noteq> []" by (auto simp: prefix_def)
      with tree_shaped_prefix[OF "1.prems"(1), of q r] n show ?thesis by simp
    qed
    show ?thesis
    proof (cases n)
      case Dir
      with n anc have all: "fs q = Some Dir" if "prefix q (butlast name)" for q
        using that by (cases "q = butlast name") auto
      have "(\<lambda>q. if prefix q name \<and> fs q = None then Some Dir else fs q) = fs(name \<mapsto> Dir)"
        using all "1.prems"(2) by (auto simp: pre fun_eq_iff)
      moreover have "\<not> (\<exists>q c. prefix q name \<and> fs q = Some (File c))"
        using all "1.prems"(2) by (auto simp: pre)
      ultimately show ?thesis using mk n Dir ne "1.prems"(2) by (simp add: mkdir_def)
    next
      case (File c)
      with n have "\<exists>q c. prefix q name \<and> fs q = Some (File c)"
        using pre by blast
      then show ?thesis using mk n File ne "1.prems"(2) by (simp add: mkdir_def)
    qed
  next
    case False
    then have par: "fs (butlast name) = None" by (simp add: path_exists_def)
    from ne False have c: "name \<noteq> [] \<and> \<not> path_exists fs (butlast name)" by simp
    note IH = "1.IH"[OF c "1.prems"(1) par]
    show ?thesis
    proof (cases "\<exists>q c. prefix q (butlast name) \<and> fs q = Some (File c)")
      case True
      then have "\<exists>q c. prefix q name \<and> fs q = Some (File c)" using pre by blast
      with True IH ne False show ?thesis by (simp add: makedirs_rec)
    next
      case nf: False
      let ?fs1 = "\<lambda>q. if prefix q (butlast name) \<and> fs q = None then Some Dir else fs q"
      from nf IH have rec: "makedirs fs (butlast name) = (None, ?fs1)" by simp
      have "\<not> prefix name (butlast name)" using ne by (rule not_prefix_butlast)
      then have "mkdir ?fs1 name = (None, ?fs1(name \<mapsto> Dir))"
        using ne par "1.prems"(2) by (simp add: mkdir_def)
      moreover have "?fs1(name \<mapsto> Dir) = (\<lambda>q. if prefix q name \<and> fs q = None then Some Dir else fs q)"
        using "1.prems"(2) by (auto simp: pre fun_eq_iff)
      moreover have "\<not> (\<exists>q c. prefix q name \<and> fs q = Some (File c))"
        using nf "1.prems"(2) by (auto simp: pre)
      ultimately show ?thesis using rec ne False by (simp add: makedirs_rec)
    qed
  qed
qed

subsection \<open>Printing\<close>

lemma stdout_prints_json_dumps: "stdout_prints E (json_dumps E v)"
  using String.explode [of "dumps E v"]
  by (simp add: stdout_prints_def json_dumps_def list_all_iff)

lemma py_print_json_dumps: "py_print E (json_dumps E v) = Inr (json_dumps E v)"
  by (simp add: py_print_def stdout_prints_json_dumps)

lemma print_empty_workspace_eq:
  "print_empty_workspace E raw = Printed (json_dumps E (empty_workspace raw))"
  by (simp add: print_empty_workspace_def py_print_json_dumps)

subsection \<open>Running import\<close>

lemma validate_Inr:
  "validate E c pu wu = Inr w \<longleftrightarrow> json_load E c = Inr w \<and> validate_doc w pu wu = Inr w"
  by (auto simp: validate_def validate_doc_Inr split: sum.splits)

lemma validate_doc_metadata_id:
  "validate_doc w pu wu = Inr w' \<Longrightarrow> \<exists>s. metadata_id w = Some (JStr s) \<and> (s = pu \<or> prefix wu s)"
  by (auto simp: validate_doc_Inr metadata_id_def)

lemma open_write_then_write:
  "open_write fs p = Inr fs' \<Longrightarrow> fid_write fs' p t = fs(p \<mapsto> File (Text t))"
  by (auto simp: open_write_def fid_write_def split: option.splits node.splits if_splits)

lemma open_write_Inr:
  "(\<exists>fs'. open_write fs p = Inr fs') \<longleftrightarrow>
     (\<exists>c. fs p = Some (File c)) \<or> (fs p = None \<and> p \<noteq> [] \<and> fs (butlast p) = Some Dir)"
  by (auto simp: open_write_def split: option.splits node.splits if_splits)

lemma write_workspace_str:
  "metadata_id w = Some (JStr s) \<Longrightarrow>
   write_workspace E cfg fs w =
     (case open_write fs (workspace_path E cfg s) of
        Inl e \<Rightarrow> (Uncaught e, fs)
      | Inr fs' \<Rightarrow> (Saved (workspace_path E cfg s),
                   fs(workspace_path E cfg s \<mapsto> File (Text (json_dumps E w)))))"
  by (auto simp: write_workspace_def metadata_id_def Let_def open_write_then_write
           split: sum.splits)

lemma write_workspace_Saved:
  "write_workspace E cfg fs w = (Saved p, fs') \<Longrightarrow>
    \<exists>s. metadata_id w = Some (JStr s) \<and> p = workspace_path E cfg s \<and>
        (\<exists>fs1. open_write fs p = Inr fs1) \<and> fs' = fs(p \<mapsto> File (Text (json_dumps E w)))"
  by (auto simp: write_workspace_def metadata_id_def Let_def open_write_then_write
           split: sum.splits json.splits)

lemma import_start_one:
  "import_start E cfg fs [f] =
    (if \<not> path_exists fs (abspath E f) then (Exit1 (DoesNotExist f), fs)
     else (case open_read fs (abspath E f) of
        Inl e \<Rightarrow> (Uncaught e, fs)
      | Inr fid \<Rightarrow>
         (case validate E fid (page_url cfg) (workspaces_url cfg) of
            Inl e \<Rightarrow> (Exit1 (NotValid f e), fs)
          | Inr workspace \<Rightarrow>
             (case ensure_directory fs (workspaces_dir cfg) of
                (Some e, fs') \<Rightarrow> (Exit1 (DirectoryNotCreated e), fs')
              | (None, fs') \<Rightarrow> write_workspace E cfg fs' workspace))))"
  by (simp add: import_start_def Let_def)

lemma open_read_Inr: "open_read fs p = Inr c \<longleftrightarrow> fs p = Some (File c)"
  by (auto simp: open_read_def split: option.splits node.splits)

lemma import_start_valid:
  assumes "open_read fs (abspath E f) = Inr c"
      and "validate E c (page_url cfg) (workspaces_url cfg) = Inr w"
  shows "import_start E cfg fs [f] =
          (case ensure_directory fs (workspaces_dir cfg) of
             (Some e, fs') \<Rightarrow> (Exit1 (DirectoryNotCreated e), fs')
           | (None, fs') \<Rightarrow> write_workspace E cfg fs' w)"
proof -
  from assms(1) have "path_exists fs (abspath E f)"
    by (simp add: open_read_Inr path_exists_def)
  with assms show ?thesis by (simp add: import_start_one)
qed

lemma import_start_Saved:
  assumes "import_start E cfg fs args = (Saved p, fs2)"
  shows "\<exists>f c w s fs1. args = [f] \<and> open_read fs (abspath E f) = Inr c \<and>
           validate E c (page_url cfg) (workspaces_url cfg) = Inr w \<and>
           ensure_directory fs (workspaces_dir cfg) = (None, fs1) \<and>
           metadata_id w = Some (JStr s) \<and> p = workspace_path E cfg s \<and>
           (\<exists>fs'. open_write fs1 p = Inr fs') \<and>
           fs2 = fs1(p \<mapsto> File (Text (json_dumps E w)))"
proof -
  from assms obtain f where args: "args = [f]"
    by (cases args) (auto simp: import_start_def split: if_splits)
  from assms args obtain c where c: "open_read fs (abspath E f) = Inr c"
    by (auto simp: import_start_one split: if_splits sum.splits)
  from assms args c obtain w where w: "validate E c (page_url cfg) (workspaces_url cfg) = Inr w"
    by (auto simp: import_start_one split: if_splits sum.splits)
  from assms args have "(case ensure_directory fs (workspaces_dir cfg) of
             (Some e, fs') \<Rightarrow> (Exit1 (DirectoryNotCreated e), fs')
           | (None, fs') \<Rightarrow> write_workspace E cfg fs' w) = (Saved p, fs2)"
    by (simp add: import_start_valid[OF c w])
  then obtain fs1 where e: "ensure_directory fs (workspaces_dir cfg) = (None, fs1)"
    and ww: "write_workspace E cfg fs1 w = (Saved p, fs2)"
    by (auto split: prod.splits option.splits)
  from write_workspace_Saved[OF ww] args c w e show ?thesis by blast
qed

subsection \<open>Import into an existing directory\<close>

lemma ensure_directory_None:
  assumes "ensure_directory fs d = (None, fs')"
  shows "fs' d \<noteq> None"
proof (cases "path_exists fs d")
  case True
  with assms show ?thesis by (auto simp: ensure_directory_def path_exists_def)
next
  case False
  with assms have "makedirs fs d = (None, fs')" by (simp add: ensure_directory_def)
  from makedirs_effect[OF False this] show ?thesis by simp
qed

lemma ensure_directory_exists:
  "fs d \<noteq> None \<Longrightarrow> ensure_directory fs d = (None, fs)"
  by (simp add: ensure_directory_def path_exists_def)

lemma workspace_path_child:
  "butlast (workspace_path E cfg s) = workspaces_dir cfg \<and> workspace_path E cfg s \<noteq> workspaces_dir cfg
   \<and> workspace_path E cfg s \<noteq> []"
  by (simp add: workspace_path_def)

lemma import_start_store:
  assumes src: "open_read fs (abspath E f) = Inr c"
      and val: "validate E c (page_url cfg) (workspaces_url cfg) = Inr w"
      and wid: "metadata_id w = Some (JStr s)"
      and dir: "fs (workspaces_dir cfg) = Some Dir"
      and nod: "fs (workspace_path E cfg s) \<noteq> Some Dir"
  shows "import_start E cfg fs [f] =
          (Saved (workspace_path E cfg s),
           fs(workspace_path E cfg s \<mapsto> File (Text (json_dumps E w))))"
proof -
  have "(\<exists>c. fs (workspace_path E cfg s) = Some (File c)) \<or> fs (workspace_path E cfg s) = None"
  proof (cases "fs (workspace_path E cfg s)")
    case None
    then show ?thesis by simp
  next
    case (Some a)
    with nod show ?thesis by (cases a) auto
  qed
  then have "\<exists>fs'. open_write fs (workspace_path E cfg s) = Inr fs'"
    unfolding open_write_Inr using dir workspace_path_child[of E cfg s] by auto
  then show ?thesis
    using dir by (auto simp: import_start_valid[OF src val] ensure_directory_exists
        write_workspace_str[OF wid])
qed

subsection \<open>Evaluating the examples\<close>

lemmas example_defs = E0_def cfg0_def json_dumps_def example_loads_def example_dumps_def example_texts_def
  example_slugify_def example_abspath_def url_path_join_def strip_slashes_def

section \<open>The claims\<close>

text \<open>
  C3. Validation applies its rules in a fixed order and the first failure wins: the file
  must load as JSON, then have \<open>data\<close>, then \<open>metadata\<close>, then \<open>metadata.id\<close>, then pass
  the identity check. Whatever the later rules would raise when evaluated alone, the
  failure reported is that of the earliest rule that fails; when none fails the loaded
  document is returned.
\<close>

lemmas run_defs = import_start_def export_start_def export_raw_def workspace_path_def
  path_exists_def open_read_def open_write_def fid_write_def ensure_directory_def
  write_workspace_def mkdir_def validate_def json_load_def validate_doc_def metadata_id_def
  empty_workspace_def fs_home_def fs_store_def Let_def py_print_def stdout_prints_def
  print_empty_workspace_def

lemma tree_shaped_fs_home: "tree_shaped (fs_home c)"
  by (auto simp: tree_shaped_def fs_home_def split: if_splits)

theorem validate_first_failure_wins:
  "validate E data pu wu =
    (case first_failure (validation_rules E pu wu) data of
       Some e \<Rightarrow> Inl e
     | None \<Rightarrow> json_load E data)"
proof (cases "json_load E data")
  case (Inl e)
  then show ?thesis by (simp add: validate_def validation_rules_def rule_json_def)
next
  case (Inr w)
  then show ?thesis
    by (simp add: validate_def validation_rules_def rule_json_def on_document_def rule_data_def
        rule_metadata_def rule_metadata_id_def rule_identity_def validate_doc_def
        split: sum.splits option.splits)
qed

text \<open>
  C1, as stated, fails: with \<open>pageUrl = /lab\<close> and \<open>workspacesUrl = /lab/workspaces\<close> the
  validator accepts a document whose id \<open>/lab/workspacesfoo\<close> neither equals the page URL
  nor has the workspaces URL as a path prefix.
\<close>

theorem path_prefix_counterexample:
  \<open>validate E0 (Text ''{"data": {}, "metadata": {"id": "/lab/workspacesfoo"}}'')
      ''/lab'' ''/lab/workspaces''
     = Inr (JObj [(''data'', JObj []),
                  (''metadata'', JObj [(''id'', JStr ''/lab/workspacesfoo'')])])
   \<and> ''/lab/workspacesfoo'' \<noteq> ''/lab''
   \<and> \<not> path_prefix ''/lab/workspaces'' ''/lab/workspacesfoo''\<close>
  by (simp add: validate_def json_load_def validate_doc_def example_defs path_prefix_def)

text \<open>
  C1, amended. Every document that validation accepts has a str \<open>metadata.id\<close> that equals
  \<open>pageUrl\<close> or has \<open>workspacesUrl\<close> as a prefix of its characters
  (\<^verbatim>\<open>str.startswith\<close>, no path boundary). Every document that loads, passes the three
  presence rules and has a str id satisfying neither is rejected with the identity-mismatch
  exception.
\<close>

theorem validate_identity_raw_prefix:
  "(validate E c pu wu = Inr w \<longrightarrow>
      (\<exists>s. metadata_id w = Some (JStr s) \<and> (s = pu \<or> prefix wu s)))
   \<and> (json_load E c' = Inr w' \<and> rule_data w' = None \<and> rule_metadata w' = None \<and>
        rule_metadata_id w' = None \<and> metadata_id w' = Some (JStr s') \<and>
        s' \<noteq> pu \<and> \<not> prefix wu s' \<longrightarrow>
      validate E c' pu wu = Inl (Exception (id_mismatch s')))"
proof (intro conjI impI)
  assume "validate E c pu wu = Inr w"
  then show "\<exists>s. metadata_id w = Some (JStr s) \<and> (s = pu \<or> prefix wu s)"
    by (auto simp: validate_Inr dest: validate_doc_metadata_id)
next
  assume "json_load E c' = Inr w' \<and> rule_data w' = None \<and> rule_metadata w' = None \<and>
        rule_metadata_id w' = None \<and> metadata_id w' = Some (JStr s') \<and>
        s' \<noteq> pu \<and> \<not> prefix wu s'"
  then show "validate E c' pu wu = Inl (Exception (id_mismatch s'))"
    by (auto simp: validate_def validate_doc_def rule_data_def rule_metadata_def
        rule_metadata_id_def metadata_id_def split: sum.splits if_splits)
qed

theorem validate_identity_raw_prefix_witness:
  \<open>validate E0 (Text ''{"data": {}, "metadata": {"id": "/lab/workspaces/foo"}}'')
      ''/lab'' ''/lab/workspaces''
     = Inr (JObj [(''data'', JObj []),
                  (''metadata'', JObj [(''id'', JStr ''/lab/workspaces/foo'')])])
   \<and> prefix ''/lab/workspaces'' ''/lab/workspaces/foo''
   \<and> validate E0 (Text ''{"data": {}, "metadata": {"id": "/elsewhere"}}'')
      ''/lab'' ''/lab/workspaces''
     = Inl (Exception (id_mismatch ''/elsewhere''))\<close>
  using validate_identity_raw_prefix [of E0
      \<open>Text ''{"data": {}, "metadata": {"id": "/lab/workspaces/foo"}}''\<close>
      \<open>''/lab''\<close> \<open>''/lab/workspaces''\<close>
      \<open>JObj [(''data'', JObj []), (''metadata'', JObj [(''id'', JStr ''/lab/workspaces/foo'')])]\<close>
      \<open>Text ''{"data": {}, "metadata": {"id": "/elsewhere"}}''\<close>
      \<open>JObj [(''data'', JObj []), (''metadata'', JObj [(''id'', JStr ''/elsewhere'')])]\<close>
      \<open>''/elsewhere''\<close>]
  by (simp add: validate_def json_load_def validate_doc_def example_defs rule_data_def
      rule_metadata_def rule_metadata_id_def metadata_id_def)

text \<open>
  C5. Export with no argument resolves to \<open>pageUrl\<close>, export with one argument to the
  join of \<open>workspacesUrl\<close> and the argument; when the store has no file for the slug of
  that identifier, export prints exactly the empty workspace with that id.
\<close>

theorem export_missing_workspace:
  "(\<not> path_exists fs (workspace_path E cfg (page_url cfg)) \<longrightarrow>
      export_start E cfg fs [] =
        Printed (json_dumps E
          (JObj [(''data'', JObj []), (''metadata'', JObj [(''id'', JStr (page_url cfg))])])))
   \<and> (\<not> path_exists fs (workspace_path E cfg (ujoin E (workspaces_url cfg) name)) \<longrightarrow>
      export_start E cfg fs [name] =
        Printed (json_dumps E
          (JObj [(''data'', JObj []),
                 (''metadata'', JObj [(''id'', JStr (ujoin E (workspaces_url cfg) name))])])))"
  by (simp add: export_start_def export_raw_def print_empty_workspace_eq empty_workspace_def
      Let_def)

theorem export_missing_workspace_witness:
  \<open>\<not> path_exists (fs_home Undecodable) (workspace_path E0 cfg0 (page_url cfg0))
   \<and> export_start E0 cfg0 (fs_home Undecodable) [] =
        Printed ''{"data": {}, "metadata": {"id": "/lab"}}''
   \<and> \<not> path_exists (fs_home Undecodable)
          (workspace_path E0 cfg0 (ujoin E0 (workspaces_url cfg0) ''foo''))
   \<and> ujoin E0 (workspaces_url cfg0) ''foo'' = ''/lab/workspaces/foo''
   \<and> export_start E0 cfg0 (fs_home Undecodable) [''foo''] =
        Printed ''{"data": {}, "metadata": {"id": "/lab/workspaces/foo"}}''\<close>
  using export_missing_workspace [of "fs_home Undecodable" E0 cfg0 "''foo''"]
  by (simp add: example_defs workspace_path_def path_exists_def fs_home_def empty_workspace_def)

text \<open>
  C2, as stated, fails: the store holds a file for the identifier and the file does not
  parse as JSON, yet export prints the file's text and not the empty workspace.
\<close>

theorem export_parse_failure_counterexample:
  \<open>fs_store Undecodable (Text ''not json'') (workspace_path E0 cfg0 (export_raw E0 cfg0 []))
      = Some (File (Text ''not json''))
   \<and> json_load E0 (Text ''not json'') = Inl JSONDecodeError
   \<and> export_start E0 cfg0 (fs_store Undecodable (Text ''not json'')) [] = Printed ''not json''
   \<and> export_start E0 cfg0 (fs_store Undecodable (Text ''not json'')) []
      \<noteq> Printed (json_dumps E0 (empty_workspace (export_raw E0 cfg0 [])))
   \<and> json_dumps E0 (empty_workspace (export_raw E0 cfg0 []))
      = ''{"data": {}, "metadata": {"id": "/lab"}}''\<close>
  by (simp add: example_defs run_defs)

text \<open>
  C2, amended. When a regular file exists for the target, export never parses it: if
  reading it raises, or if printing the text read raises because standard output cannot
  encode it, export prints the empty workspace for the resolved identifier; otherwise
  export prints the text read, whatever it is. In all cases the command returns with
  status 0.
\<close>

theorem export_existing_file:
  assumes "length args \<le> 1"
      and "fs (workspace_path E cfg (export_raw E cfg args)) = Some (File c)"
  shows "(c = Text s \<and> stdout_prints E s \<longrightarrow> export_start E cfg fs args = Printed s)
       \<and> (c = Undecodable \<or> (c = Text s \<and> \<not> stdout_prints E s) \<longrightarrow>
            export_start E cfg fs args =
              Printed (json_dumps E (empty_workspace (export_raw E cfg args))))
       \<and> exit_status (export_start E cfg fs args) = 0"
  using assms
  by (cases c)
     (simp_all add: export_start_def Let_def path_exists_def open_read_def py_print_def
        print_empty_workspace_eq)

theorem export_existing_file_witness:
  \<open>stdout_prints E0 ''not json''
   \<and> export_start E0 cfg0 (fs_store Undecodable (Text ''not json'')) [] = Printed ''not json''
   \<and> export_start E0 cfg0 (fs_store Undecodable Undecodable) [] =
       Printed ''{"data": {}, "metadata": {"id": "/lab"}}''
   \<and> \<not> stdout_prints E0 [CHR 0xE9]
   \<and> export_start E0 cfg0 (fs_store Undecodable (Text [CHR 0xE9])) [] =
       Printed ''{"data": {}, "metadata": {"id": "/lab"}}''
   \<and> exit_status (export_start E0 cfg0 (fs_store Undecodable (Text [CHR 0xE9])) []) = 0\<close>
  using export_existing_file [of "[]" "fs_store Undecodable (Text ''not json'')" E0 cfg0
          "Text ''not json''" "''not json''"]
        export_existing_file [of "[]" "fs_store Undecodable Undecodable" E0 cfg0 Undecodable]
        export_existing_file [of "[]" "fs_store Undecodable (Text [CHR 0xE9])" E0 cfg0
          "Text [CHR 0xE9]" "[CHR 0xE9]"]
  by (simp add: example_defs workspace_path_def fs_home_def fs_store_def export_raw_def
      empty_workspace_def stdout_prints_def)

text \<open>
  C4. An import that fails by its argument count, by a missing source file or by a
  validation failure exits with status 1 and leaves the file system as it was: nothing is
  written and no directory is made.
\<close>

theorem import_failure_leaves_store:
  "(length args \<noteq> 1 \<longrightarrow>
      import_start E cfg fs args = (Exit1 OneArgumentRequired, fs))
   \<and> (\<not> path_exists fs (abspath E f) \<longrightarrow>
      import_start E cfg fs [f] = (Exit1 (DoesNotExist f), fs))
   \<and> (open_read fs (abspath E f') = Inr c \<and>
       validate E c (page_url cfg) (workspaces_url cfg) = Inl e \<longrightarrow>
      import_start E cfg fs [f'] = (Exit1 (NotValid f' e), fs))
   \<and> exit_status (Exit1 m) = 1"
proof (intro conjI impI)
  assume "open_read fs (abspath E f') = Inr c \<and>
       validate E c (page_url cfg) (workspaces_url cfg) = Inl e"
  moreover from this have "path_exists fs (abspath E f')"
    by (simp add: open_read_Inr path_exists_def)
  ultimately show "import_start E cfg fs [f'] = (Exit1 (NotValid f' e), fs)"
    by (simp add: import_start_one)
qed (simp_all add: import_start_def Let_def)

theorem import_failure_leaves_store_witness:
  \<open>length [''a.json'', ''b.json''] \<noteq> 1
   \<and> import_start E0 cfg0 (fs_home (Text ''{"metadata": 5}'')) [''a.json'', ''b.json'']
       = (Exit1 OneArgumentRequired, fs_home (Text ''{"metadata": 5}''))
   \<and> \<not> path_exists (fs_home (Text ''{"metadata": 5}'')) (abspath E0 ''a.json'')
   \<and> import_start E0 cfg0 (fs_home (Text ''{"metadata": 5}'')) [''a.json'']
       = (Exit1 (DoesNotExist ''a.json''), fs_home (Text ''{"metadata": 5}''))
   \<and> validate E0 (Text ''{"metadata": 5}'') (page_url cfg0) (workspaces_url cfg0)
       = Inl (Exception data_missing)
   \<and> import_start E0 cfg0 (fs_home (Text ''{"metadata": 5}'')) [''w.json'']
       = (Exit1 (NotValid ''w.json'' (Exception data_missing)), fs_home (Text ''{"metadata": 5}''))
   \<and> \<not> path_exists (fs_home (Text ''{"metadata": 5}'')) (workspaces_dir cfg0)\<close>
  using import_failure_leaves_store [of "[''a.json'', ''b.json'']" E0 cfg0
          \<open>fs_home (Text ''{"metadata": 5}'')\<close> "''a.json''" "''w.json''"
          \<open>Text ''{"metadata": 5}''\<close> "Exception data_missing"]
  by (simp add: example_defs path_exists_def fs_home_def open_read_def validate_def
      json_load_def validate_doc_def)

text \<open>
  C9. A document that validation accepts is returned as it was loaded, and a successful
  import writes the serialization of that very value, so every key of the loaded document,
  beyond \<open>data\<close> and \<open>metadata\<close> too, reaches the store.
\<close>

theorem validation_preserves_content:
  "(validate E c pu wu = Inr w \<longrightarrow> json_load E c = Inr w)
   \<and> (import_start E cfg fs args = (Saved p, fs') \<longrightarrow>
       (\<exists>f c' w'. args = [f] \<and> open_read fs (abspath E f) = Inr c' \<and>
          json_load E c' = Inr w' \<and> fs' p = Some (File (Text (json_dumps E w')))))"
proof (intro conjI impI)
  assume "validate E c pu wu = Inr w"
  then show "json_load E c = Inr w" by (simp add: validate_Inr)
next
  assume "import_start E cfg fs args = (Saved p, fs')"
  from import_start_Saved[OF this]
  show "\<exists>f c' w'. args = [f] \<and> open_read fs (abspath E f) = Inr c' \<and>
          json_load E c' = Inr w' \<and> fs' p = Some (File (Text (json_dumps E w')))"
    by (auto simp: validate_Inr)
qed

theorem validation_preserves_content_witness:
  \<open>validate E0 (Text ''{"data": 5, "metadata": {"id": "/lab"}, "extra": [true]}'')
      ''/lab'' ''/lab/workspaces''
     = Inr (JObj [(''data'', JInt 5), (''metadata'', JObj [(''id'', JStr ''/lab'')]),
                  (''extra'', JArr [JBool True])])
   \<and> fst (import_start E0 cfg0
        (fs_home (Text ''{"data": 5, "metadata": {"id": "/lab"}, "extra": [true]}''))
        [''w.json''])
     = Saved [''home'', ''ws'', ''lab.jupyterlab-workspace'']
   \<and> snd (import_start E0 cfg0
        (fs_home (Text ''{"data": 5, "metadata": {"id": "/lab"}, "extra": [true]}''))
        [''w.json'']) [''home'', ''ws'', ''lab.jupyterlab-workspace'']
     = Some (File (Text ''{"data": 5, "metadata": {"id": "/lab"}, "extra": [true]}''))\<close>
  using validation_preserves_content [of E0
      \<open>Text ''{"data": 5, "metadata": {"id": "/lab"}, "extra": [true]}''\<close>
      \<open>''/lab''\<close> \<open>''/lab/workspaces''\<close>
      \<open>JObj [(''data'', JInt 5), (''metadata'', JObj [(''id'', JStr ''/lab'')]),
                  (''extra'', JArr [JBool True])]\<close>
      cfg0
      \<open>fs_home (Text ''{"data": 5, "metadata": {"id": "/lab"}, "extra": [true]}'')\<close>
      \<open>[''w.json'']\<close>
      \<open>[''home'', ''ws'', ''lab.jupyterlab-workspace'']\<close>
      \<open>snd (import_start E0 cfg0
        (fs_home (Text ''{"data": 5, "metadata": {"id": "/lab"}, "extra": [true]}''))
        [''w.json''])\<close>]
  by (simp add: example_defs run_defs makedirs_base)

text \<open>
  C10. Validation tests the presence of keys, never the type of a value: a document with
  the keys \<open>data\<close> and \<open>metadata\<close>, whose \<open>metadata\<close> has the key \<open>id\<close> with an id
  that passes the identity check, is accepted whatever the value \<open>d\<close> of \<open>data\<close> is (a
  number, a string, a list), and import into an existing workspace directory stores its
  serialization as it is.
\<close>

theorem presence_only_validation:
  assumes "json_load E c = Inr (JObj kvs)"
      and "map_of kvs ''data'' = Some d"
      and "map_of kvs ''metadata'' = Some (JObj mkvs)"
      and "map_of mkvs ''id'' = Some (JStr s)"
      and "s = page_url cfg \<or> prefix (workspaces_url cfg) s"
      and "open_read fs (abspath E f) = Inr c"
      and "fs (workspaces_dir cfg) = Some Dir"
      and "fs (workspace_path E cfg s) \<noteq> Some Dir"
  shows "validate E c (page_url cfg) (workspaces_url cfg) = Inr (JObj kvs)
       \<and> import_start E cfg fs [f] =
          (Saved (workspace_path E cfg s),
           fs(workspace_path E cfg s \<mapsto> File (Text (json_dumps E (JObj kvs)))))"
proof -
  from assms(2) have "''data'' \<in> set (map fst kvs)"
    by (metis map_of_eq_None_iff option.distinct(1) set_map)
  with assms(1,3,4,5) have v: "validate E c (page_url cfg) (workspaces_url cfg) = Inr (JObj kvs)"
    unfolding validate_Inr validate_doc_Inr by blast
  have i: "metadata_id (JObj kvs) = Some (JStr s)"
    using assms(3,4) by (simp add: metadata_id_def)
  from v import_start_store[OF assms(6) v i assms(7,8)] show ?thesis by simp
qed

theorem presence_only_validation_witness:
  \<open>validate E0 (Text ''{"data": 5, "metadata": {"id": "/lab"}, "extra": [true]}'')
      (page_url cfg0) (workspaces_url cfg0)
     = Inr (JObj [(''data'', JInt 5), (''metadata'', JObj [(''id'', JStr ''/lab'')]),
                  (''extra'', JArr [JBool True])])
   \<and> import_start E0 cfg0
        (fs_store (Text ''{"data": 5, "metadata": {"id": "/lab"}, "extra": [true]}'') Undecodable)
        [''w.json'']
     = (Saved [''home'', ''ws'', ''lab.jupyterlab-workspace''],
        (fs_store (Text ''{"data": 5, "metadata": {"id": "/lab"}, "extra": [true]}'') Undecodable)
          ([''home'', ''ws'', ''lab.jupyterlab-workspace''] \<mapsto>
             File (Text ''{"data": 5, "metadata": {"id": "/lab"}, "extra": [true]}'')))\<close>
  using presence_only_validation [of E0
      \<open>Text ''{"data": 5, "metadata": {"id": "/lab"}, "extra": [true]}''\<close>
      \<open>[(''data'', JInt 5), (''metadata'', JObj [(''id'', JStr ''/lab'')]),
                  (''extra'', JArr [JBool True])]\<close>
      \<open>JInt 5\<close> \<open>[(''id'', JStr ''/lab'')]\<close> \<open>''/lab''\<close> cfg0
      \<open>fs_store (Text ''{"data": 5, "metadata": {"id": "/lab"}, "extra": [true]}'') Undecodable\<close>
      \<open>''w.json''\<close>]
  by (simp add: example_defs json_load_def open_read_def fs_home_def fs_store_def
      workspace_path_def)

text \<open>
  C8. When the document passes validation and the workspace directory does not exist,
  import makes the directory with \<^verbatim>\<open>os.makedirs\<close>: unless an ancestor of the
  directory is a regular file, every missing ancestor and the directory itself are made,
  however many levels are missing, nothing else changes, and the workspace file is written
  into the directory in the same run. When an ancestor is a regular file, making the
  directory fails: import prints the message, exits with status 1 and leaves the file
  system as it was, so no file is written.
\<close>

theorem import_creates_directory:
  assumes tree: "tree_shaped fs"
      and src: "open_read fs (abspath E f) = Inr c"
      and val: "validate E c (page_url cfg) (workspaces_url cfg) = Inr w"
      and nodir: "\<not> path_exists fs (workspaces_dir cfg)"
  shows "\<exists>s. metadata_id w = Some (JStr s) \<and>
           butlast (workspace_path E cfg s) = workspaces_dir cfg \<and>
           import_start E cfg fs [f] =
            (if \<exists>q c. prefix q (workspaces_dir cfg) \<and> fs q = Some (File c)
             then (Exit1 (DirectoryNotCreated NotADirectoryError), fs)
             else (Saved (workspace_path E cfg s),
                   (\<lambda>q. if prefix q (workspaces_dir cfg) \<and> fs q = None then Some Dir else fs q)
                     (workspace_path E cfg s \<mapsto> File (Text (json_dumps E w))))) \<and>
           (if \<exists>q c. prefix q (workspaces_dir cfg) \<and> fs q = Some (File c)
            then exit_status (fst (import_start E cfg fs [f])) = 1
            else list_all (\<lambda>q. snd (import_start E cfg fs [f]) q = Some Dir)
                   (prefixes (workspaces_dir cfg)))"
proof -
  let ?d = "workspaces_dir cfg"
  let ?blocked = "\<exists>q c. prefix q ?d \<and> fs q = Some (File c)"
  let ?fs1 = "\<lambda>q. if prefix q ?d \<and> fs q = None then Some Dir else fs q"
  from nodir have none: "fs ?d = None" by (simp add: path_exists_def)
  have mk: "makedirs fs ?d = (if ?blocked then (Some NotADirectoryError, fs) else (None, ?fs1))"
    using tree none by (rule makedirs_tree)
  have ens: "ensure_directory fs ?d = makedirs fs ?d"
    using nodir by (simp add: ensure_directory_def)
  from validate_doc_metadata_id val obtain s where s: "metadata_id w = Some (JStr s)"
    unfolding validate_Inr by blast
  let ?p = "workspace_path E cfg s"
  have child: "butlast ?p = ?d" "?p \<noteq> []"
    using workspace_path_child[of E cfg s] by simp_all
  have imp: "import_start E cfg fs [f] =
      (if ?blocked then (Exit1 (DirectoryNotCreated NotADirectoryError), fs)
       else (Saved ?p, ?fs1(?p \<mapsto> File (Text (json_dumps E w)))))"
  proof (cases ?blocked)
    case True
    then show ?thesis
      using mk ens by (simp add: import_start_valid[OF src val])
  next
    case False
    have "fs ?p = None"
    proof (rule ccontr)
      assume "fs ?p \<noteq> None"
      then have "fs (?d @ [slugify E s (base_url cfg) @ WORKSPACE_EXTENSION E]) \<noteq> None"
        by (simp add: workspace_path_def)
      from tree_shaped_prefix[OF tree this] none show False by simp
    qed
    moreover have "\<not> prefix ?p ?d"
      by (auto simp: workspace_path_def dest: prefix_length_le)
    ultimately have a: "?fs1 ?p = None" by simp
    have b: "?fs1 ?d = Some Dir" using none by simp
    define fs1 where "fs1 = ?fs1"
    from a b child have "fs1 ?p = None \<and> ?p \<noteq> [] \<and> fs1 (butlast ?p) = Some Dir"
      by (simp add: fs1_def)
    then have "\<exists>fs'. open_write fs1 ?p = Inr fs'"
      unfolding open_write_Inr by blast
    then have "\<exists>fs'. open_write ?fs1 ?p = Inr fs'" by (simp only: fs1_def)
    then show ?thesis
      using False mk ens
      by (auto simp: import_start_valid[OF src val] write_workspace_str[OF s])
  qed
  have rest: "if ?blocked then exit_status (fst (import_start E cfg fs [f])) = 1
        else list_all (\<lambda>q. snd (import_start E cfg fs [f]) q = Some Dir) (prefixes ?d)"
  proof (cases ?blocked)
    case True
    then show ?thesis by (simp add: imp)
  next
    case False
    define fs2 where "fs2 = ?fs1(?p \<mapsto> File (Text (json_dumps E w)))"
    have dirs: "fs2 q = Some Dir" if q: "prefix q ?d" for q
    proof -
      from q have "q \<noteq> ?p" by (auto simp: workspace_path_def dest: prefix_length_le)
      moreover have "?fs1 q = Some Dir"
      proof (cases "fs q")
        case None
        with q show ?thesis by simp
      next
        case (Some n)
        with False q show ?thesis by (cases n) auto
      qed
      ultimately show ?thesis by (simp add: fs2_def)
    qed
    from False imp have "snd (import_start E cfg fs [f]) = fs2"
      by (simp only: fs2_def if_False snd_conv)
    moreover have "list_all (\<lambda>q. fs2 q = Some Dir) (prefixes ?d)"
      using dirs by (simp add: list_all_iff)
    ultimately show ?thesis using False by (simp only: if_False)
  qed
  from s child imp rest show ?thesis by blast
qed

theorem import_creates_directory_witness:
  \<open>tree_shaped (fs_home (Text ''{"data": {}, "metadata": {"id": "/lab"}}''))
   \<and> \<not> path_exists (fs_home (Text ''{"data": {}, "metadata": {"id": "/lab"}}'')) [''home'', ''lab'']
   \<and> \<not> path_exists (fs_home (Text ''{"data": {}, "metadata": {"id": "/lab"}}''))
         [''home'', ''lab'', ''ws'']
   \<and> import_start E0 (cfg0\<lparr>workspaces_dir := [''home'', ''lab'', ''ws'']\<rparr>)
        (fs_home (Text ''{"data": {}, "metadata": {"id": "/lab"}}'')) [''w.json'']
     = (Saved [''home'', ''lab'', ''ws'', ''lab.jupyterlab-workspace''],
        (fs_home (Text ''{"data": {}, "metadata": {"id": "/lab"}}''))
          ([''home'', ''lab''] \<mapsto> Dir,
           [''home'', ''lab'', ''ws''] \<mapsto> Dir,
           [''home'', ''lab'', ''ws'', ''lab.jupyterlab-workspace''] \<mapsto>
             File (Text ''{"data": {}, "metadata": {"id": "/lab"}}'')))
   \<and> \<not> path_exists (fs_home (Text ''{"data": {}, "metadata": {"id": "/lab"}}''))
         [''home'', ''w.json'', ''a'', ''ws'']
   \<and> import_start E0 (cfg0\<lparr>workspaces_dir := [''home'', ''w.json'', ''a'', ''ws'']\<rparr>)
        (fs_home (Text ''{"data": {}, "metadata": {"id": "/lab"}}'')) [''w.json'']
     = (Exit1 (DirectoryNotCreated NotADirectoryError),
        fs_home (Text ''{"data": {}, "metadata": {"id": "/lab"}}''))\<close>
  using import_creates_directory [of
          \<open>fs_home (Text ''{"data": {}, "metadata": {"id": "/lab"}}'')\<close> E0 \<open>''w.json''\<close>
          \<open>Text ''{"data": {}, "metadata": {"id": "/lab"}}''\<close>
          \<open>cfg0\<lparr>workspaces_dir := [''home'', ''lab'', ''ws'']\<rparr>\<close>
          \<open>JObj [(''data'', JObj []), (''metadata'', JObj [(''id'', JStr ''/lab'')])]\<close>]
        import_creates_directory [of
          \<open>fs_home (Text ''{"data": {}, "metadata": {"id": "/lab"}}'')\<close> E0 \<open>''w.json''\<close>
          \<open>Text ''{"data": {}, "metadata": {"id": "/lab"}}''\<close>
          \<open>cfg0\<lparr>workspaces_dir := [''home'', ''w.json'', ''a'', ''ws'']\<rparr>\<close>
          \<open>JObj [(''data'', JObj []), (''metadata'', JObj [(''id'', JStr ''/lab'')])]\<close>]
        tree_shaped_fs_home [of \<open>Text ''{"data": {}, "metadata": {"id": "/lab"}}''\<close>]
  by (simp add: example_defs run_defs makedirs_base makedirs_rec)

text \<open>
  C6. Round trip: after a successful import of a document whose \<open>metadata.id\<close> is
  \<open>pageUrl\<close>, export with no argument prints the very text that import wrote, the
  serialization of the imported document; read back by the \<^verbatim>\<open>json\<close> module (which
  returns what it serialized) it has the \<open>data\<close> and the \<open>metadata.id\<close> of that document.
\<close>

theorem import_then_export_round_trip:
  assumes imp: "import_start E cfg fs [f] = (Saved p, fs1)"
      and src: "open_read fs (abspath E f) = Inr c"
      and doc: "json_load E c = Inr w"
      and idp: "metadata_id w = Some (JStr (page_url cfg))"
      and rt: "json_loads E (json_dumps E w) = Some w"
  shows "\<exists>out w'. export_start E cfg fs1 [] = Printed out \<and> out = json_dumps E w \<and>
           json_loads E out = Some w' \<and>
           py_getitem w' ''data'' = py_getitem w ''data'' \<and> metadata_id w' = metadata_id w"
proof -
  from import_start_Saved[OF imp] src obtain w0 s fs0 where
      v: "validate E c (page_url cfg) (workspaces_url cfg) = Inr w0"
      and s: "metadata_id w0 = Some (JStr s)" and p: "p = workspace_path E cfg s"
      and fs1: "fs1 = fs0(p \<mapsto> File (Text (json_dumps E w0)))"
    by auto
  from v doc have "w0 = w" by (simp add: validate_Inr)
  with s idp p have p': "p = workspace_path E cfg (page_url cfg)" by simp
  from fs1 \<open>w0 = w\<close> have "fs1 p = Some (File (Text (json_dumps E w)))" by simp
  then have "export_start E cfg fs1 [] = Printed (json_dumps E w)"
    unfolding p' by (simp add: export_start_def export_raw_def path_exists_def open_read_def
        py_print_json_dumps)
  with rt show ?thesis by simp
qed

theorem import_then_export_round_trip_witness:
  \<open>import_start E0 cfg0 (fs_home (Text ''{"data": {}, "metadata": {"id": "/lab"}}'')) [''w.json'']
     = (Saved [''home'', ''ws'', ''lab.jupyterlab-workspace''],
        fs_store (Text ''{"data": {}, "metadata": {"id": "/lab"}}'')
                 (Text ''{"data": {}, "metadata": {"id": "/lab"}}''))
   \<and> export_start E0 cfg0
        (fs_store (Text ''{"data": {}, "metadata": {"id": "/lab"}}'')
                  (Text ''{"data": {}, "metadata": {"id": "/lab"}}'')) []
     = Printed ''{"data": {}, "metadata": {"id": "/lab"}}''
   \<and> json_loads E0 ''{"data": {}, "metadata": {"id": "/lab"}}''
     = Some (JObj [(''data'', JObj []), (''metadata'', JObj [(''id'', JStr ''/lab'')])])\<close>
  using import_then_export_round_trip [of E0 cfg0
          \<open>fs_home (Text ''{"data": {}, "metadata": {"id": "/lab"}}'')\<close> \<open>''w.json''\<close>
          \<open>[''home'', ''ws'', ''lab.jupyterlab-workspace'']\<close>
          \<open>fs_store (Text ''{"data": {}, "metadata": {"id": "/lab"}}'')
                 (Text ''{"data": {}, "metadata": {"id": "/lab"}}'')\<close>
          \<open>Text ''{"data": {}, "metadata": {"id": "/lab"}}''\<close>
          \<open>JObj [(''data'', JObj []), (''metadata'', JObj [(''id'', JStr ''/lab'')])]\<close>]
  by (simp add: example_defs run_defs makedirs_base)

text \<open>
  C7. Importing twice: after a successful import to the path \<open>p\<close>, a second import of a
  valid document with the same slug (the same document in particular) succeeds, leaves
  the same set of paths, so still one file for the slug, and the file holds exactly the
  serialization of the document the second import read: the store is the store after the
  first import with the contents of \<open>p\<close> replaced.
\<close>

theorem import_overwrites:
  assumes first: "import_start E cfg fs [f1] = (Saved p, fs1)"
      and src: "open_read fs1 (abspath E f2) = Inr c2"
      and val: "validate E c2 (page_url cfg) (workspaces_url cfg) = Inr w2"
      and wid: "metadata_id w2 = Some (JStr s2)"
      and same: "workspace_path E cfg s2 = p"
  shows "import_start E cfg fs1 [f2] = (Saved p, fs1(p \<mapsto> File (Text (json_dumps E w2))))
       \<and> (\<exists>c1. fs1 p = Some (File c1))
       \<and> dom (fs1(p \<mapsto> File (Text (json_dumps E w2)))) = dom fs1"
proof -
  from import_start_Saved[OF first] obtain fs0 w1 s1 where
      ens: "ensure_directory fs (workspaces_dir cfg) = (None, fs0)"
      and p: "p = workspace_path E cfg s1"
      and fs1: "fs1 = fs0(p \<mapsto> File (Text (json_dumps E w1)))"
      and ow: "\<exists>fs'. open_write fs0 p = Inr fs'"
    by auto
  have isfile: "fs1 p = Some (File (Text (json_dumps E w1)))" using fs1 by simp
  have "p \<noteq> workspaces_dir cfg" using p workspace_path_child[of E cfg s1] by simp
  with fs1 ensure_directory_None[OF ens] have "fs1 (workspaces_dir cfg) \<noteq> None" by simp
  then have ens1: "ensure_directory fs1 (workspaces_dir cfg) = (None, fs1)"
    by (rule ensure_directory_exists)
  from isfile have "\<exists>fs'. open_write fs1 p = Inr fs'" unfolding open_write_Inr by simp
  then have "import_start E cfg fs1 [f2] = (Saved p, fs1(p \<mapsto> File (Text (json_dumps E w2))))"
    using ens1 same by (auto simp: import_start_valid[OF src val] write_workspace_str[OF wid])
  with isfile show ?thesis by auto
qed

theorem import_overwrites_witness:
  \<open>import_start E0 cfg0 (fs_home (Text ''{"data": {}, "metadata": {"id": "/lab"}}'')) [''w.json'']
     = (Saved [''home'', ''ws'', ''lab.jupyterlab-workspace''],
        fs_store (Text ''{"data": {}, "metadata": {"id": "/lab"}}'')
                 (Text ''{"data": {}, "metadata": {"id": "/lab"}}''))
   \<and> import_start E0 cfg0
        (fs_store (Text ''{"data": {}, "metadata": {"id": "/lab"}}'')
                  (Text ''{"data": {}, "metadata": {"id": "/lab"}}'')) [''w.json'']
     = (Saved [''home'', ''ws'', ''lab.jupyterlab-workspace''],
        fs_store (Text ''{"data": {}, "metadata": {"id": "/lab"}}'')
                 (Text ''{"data": {}, "metadata": {"id": "/lab"}}''))\<close>
  using import_overwrites [of E0 cfg0
          \<open>fs_home (Text ''{"data": {}, "metadata": {"id": "/lab"}}'')\<close> \<open>''w.json''\<close>
          \<open>[''home'', ''ws'', ''lab.jupyterlab-workspace'']\<close>
          \<open>fs_store (Text ''{"data": {}, "metadata": {"id": "/lab"}}'')
                 (Text ''{"data": {}, "metadata": {"id": "/lab"}}'')\<close>
          \<open>''w.json''\<close>
          \<open>Text ''{"data": {}, "metadata": {"id": "/lab"}}''\<close>
          \<open>JObj [(''data'', JObj []), (''metadata'', JObj [(''id'', JStr ''/lab'')])]\<close>
          \<open>''/lab''\<close>]
  by (simp add: example_defs run_defs makedirs_base)

end
